theory Spec2Isabelle
  imports Main "HOL-Library.AList"
begin

section \<open>The OVN IDL backend of the load-balancer provider\<close>

text \<open>
  A shallow embedding of \<^verbatim>\<open>ovn_octavia_provider/ovsdb/impl_idl_ovn.py\<close>. The Python
  classes work on the in-memory mirror of the OVN databases that the OVSDB library keeps;
  the mirror is modelled by its content (tables, their columns and rows), Python
  exceptions are values of the type \<open>exn\<close>, and a function that may raise returns
  \<open>exn + 'a\<close> with \<open>Inl\<close> for the exception.
\<close>

subsection \<open>Exceptions and log records\<close>

datatype exn =
    KeyError string
  | AttributeError string
  | TypeError string
  | StopIteration
  | RowNotFound
  | RuntimeError string
  | AddrFormatError string
  | RevisionConflict string
  | TimeoutException string

text \<open>
  \<^verbatim>\<open>isinstance(e, RuntimeError)\<close>: the library's \<^verbatim>\<open>RowNotFound\<close> derives from
  \<^verbatim>\<open>RuntimeError\<close>; the other exceptions of the model do not.
\<close>

fun isinstance_RuntimeError :: "exn \<Rightarrow> bool" where
  "isinstance_RuntimeError (RuntimeError m) = True"
| "isinstance_RuntimeError RowNotFound = True"
| "isinstance_RuntimeError e = False"


datatype level = DEBUG | INFO | ERROR

type_synonym log_record = "level \<times> string"

subsection \<open>The mirrored tables\<close>

text \<open>
  A column value is a string, an integer, a set of row references or a string-to-string
  map. A row is its mapping from column names to values (the attributes read with
  \<^verbatim>\<open>row.column\<close>); a table has the column names of its schema and the dictionary
  \<^verbatim>\<open>rows\<close> from uuids to rows, kept as an association list in iteration order.
\<close>

type_synonym uuid = string

datatype val =
    Str string
  | Num int
  | Refs "uuid list"
  | SMap "string \<Rightarrow> string option"

type_synonym row = "string \<Rightarrow> val option"

record table =
  columns :: "string list"
  rows :: "(uuid \<times> row) list"

record api =
  tables :: "string \<Rightarrow> table option"
  LOG :: "log_record list"

text \<open>\<^verbatim>\<open>d[k]\<close> on a dictionary raises \<^verbatim>\<open>KeyError\<close> for a missing key.\<close>

definition getitem :: "(string \<Rightarrow> 'a option) \<Rightarrow> string \<Rightarrow> exn + 'a" where
  "getitem d k = (case d k of None \<Rightarrow> Inl (KeyError k) | Some v \<Rightarrow> Inr v)"

text \<open>\<^verbatim>\<open>row.column\<close> raises \<^verbatim>\<open>AttributeError\<close> when the row has no such column.\<close>

definition getattr :: "row \<Rightarrow> string \<Rightarrow> exn + val" where
  "getattr r c = (case r c of None \<Rightarrow> Inl (AttributeError c) | Some v \<Rightarrow> Inr v)"

text \<open>\<^verbatim>\<open>rows.values()\<close>: the rows in iteration order.\<close>

definition values_of :: "(uuid \<times> row) list \<Rightarrow> row list" where
  "values_of rs = map snd rs"

subsection \<open>Backend: presence of tables and columns\<close>

text \<open>
  \<^verbatim>\<open>
  def is_table_present(self, table_name):
      return table_name in self._tables

  def is_col_present(self, table_name, col_name):
      return self.is_table_present(table_name) and (
          col_name in self._tables[table_name].columns)
  \<close>
\<close>

definition is_table_present :: "api \<Rightarrow> string \<Rightarrow> bool" where
  "is_table_present self table_name = (tables self table_name \<noteq> None)"

definition is_col_present :: "api \<Rightarrow> string \<Rightarrow> string \<Rightarrow> exn + bool" where
  "is_col_present self table_name col_name =
     (if \<not> is_table_present self table_name then Inr False
      else (case getitem (tables self) table_name of
              Inl e \<Rightarrow> Inl e
            | Inr t \<Rightarrow> Inr (col_name \<in> set (columns t))))"

subsection \<open>Read commands\<close>

text \<open>
  \<^verbatim>\<open>
  class FindLbInTableCommand(command.ReadOnlyCommand):
      def run_idl(self, txn):
          self.result = [
              rowview.RowView(item) for item in
              self.api.tables[self.table].rows.values()
              if self.lb in item.load_balancer]
  \<close>
  The load balancer is named by its uuid. \<^verbatim>\<open>lb in item.load_balancer\<close> is membership
  in the set of references of the column; a value that is no set of references has no
  such test.
\<close>

datatype rowview = RowView row

definition contains :: "val \<Rightarrow> uuid \<Rightarrow> exn + bool" where
  "contains v lb =
     (case v of Refs us \<Rightarrow> Inr (lb \<in> set us)
      | _ \<Rightarrow> Inl (TypeError ''argument is not a set of references''))"

fun find_lb_items :: "uuid \<Rightarrow> row list \<Rightarrow> exn + rowview list" where
  "find_lb_items lb [] = Inr []"
| "find_lb_items lb (item # items) =
     (case getattr item ''load_balancer'' of
        Inl e \<Rightarrow> Inl e
      | Inr v \<Rightarrow>
          (case contains v lb of
             Inl e \<Rightarrow> Inl e
           | Inr b \<Rightarrow>
               (case find_lb_items lb items of
                  Inl e \<Rightarrow> Inl e
                | Inr res \<Rightarrow> Inr (if b then RowView item # res else res))))"

definition FindLbInTableCommand_run_idl :: "api \<Rightarrow> uuid \<Rightarrow> string \<Rightarrow> exn + rowview list" where
  "FindLbInTableCommand_run_idl self lb tname =
     (case getitem (tables self) tname of
        Inl e \<Rightarrow> Inl e
      | Inr t \<Rightarrow> find_lb_items lb (values_of (rows t)))"

text \<open>
  \<^verbatim>\<open>
  class GetLrsCommand(command.ReadOnlyCommand):
      def run_idl(self, txn):
          self.result = [
              rowview.RowView(item) for item in
              self.api.tables['Logical_Router'].rows.values()]
  \<close>
\<close>

definition GetLrsCommand_run_idl :: "api \<Rightarrow> exn + rowview list" where
  "GetLrsCommand_run_idl self =
     (case getitem (tables self) ''Logical_Router'' of
        Inl e \<Rightarrow> Inl e
      | Inr t \<Rightarrow> Inr (map RowView (values_of (rows t))))"

text \<open>
  The owner relation of a row: the row has a \<^verbatim>\<open>load_balancer\<close> column holding a set of
  references, and \<open>references lb\<close> says that the set contains \<open>lb\<close>.
\<close>

definition has_owner_relation :: "row \<Rightarrow> bool" where
  "has_owner_relation r = (case r ''load_balancer'' of Some (Refs us) \<Rightarrow> True | _ \<Rightarrow> False)"

definition references :: "uuid \<Rightarrow> row \<Rightarrow> bool" where
  "references lb r = (case r ''load_balancer'' of Some (Refs us) \<Rightarrow> lb \<in> set us | _ \<Rightarrow> False)"

subsection \<open>The NB_Global row\<close>

text \<open>
  \<^verbatim>\<open>
  @property
  def nb_global(self):
      return next(iter(self.tables['NB_Global'].rows.values()))
  \<close>
  \<^verbatim>\<open>next\<close> on an exhausted iterator raises \<^verbatim>\<open>StopIteration\<close>. The row is returned
  with its uuid, which names it in the table.
\<close>

definition nb_global :: "api \<Rightarrow> exn + (uuid \<times> row)" where
  "nb_global self =
     (case getitem (tables self) ''NB_Global'' of
        Inl e \<Rightarrow> Inl e
      | Inr t \<Rightarrow> (case rows t of [] \<Rightarrow> Inl StopIteration | ur # rest \<Rightarrow> Inr ur))"

subsection \<open>Row operations of the library used by the commands\<close>

text \<open>
  \<^verbatim>\<open>api.lookup(table, record)\<close> with the uuid of a row: the table is indexed in
  \<^verbatim>\<open>tables\<close> and the row is looked up in its \<^verbatim>\<open>rows\<close>; a uuid that names no row
  raises \<^verbatim>\<open>RowNotFound\<close>.
\<close>

definition lookup :: "api \<Rightarrow> string \<Rightarrow> uuid \<Rightarrow> exn + row" where
  "lookup self tname u =
     (case getitem (tables self) tname of
        Inl e \<Rightarrow> Inl e
      | Inr t \<Rightarrow> (case map_of (rows t) u of None \<Rightarrow> Inl RowNotFound | Some r \<Rightarrow> Inr r))"

text \<open>
  \<^verbatim>\<open>row.setkey(column, key, value)\<close> and \<^verbatim>\<open>row.delkey(column, key)\<close> change one key
  of a map column of the row; \<^verbatim>\<open>row.increment(column)\<close> adds one to an integer column.
  A row without the column, or with a value of another kind there, makes the operation
  fail.
\<close>

definition setkey :: "row \<Rightarrow> string \<Rightarrow> string \<Rightarrow> string \<Rightarrow> exn + row" where
  "setkey r column k v =
     (case r column of
        None \<Rightarrow> Inl (KeyError column)
      | Some (SMap m) \<Rightarrow> Inr (r(column \<mapsto> SMap (m(k \<mapsto> v))))
      | Some _ \<Rightarrow> Inl (TypeError column))"

definition delkey :: "row \<Rightarrow> string \<Rightarrow> string \<Rightarrow> exn + row" where
  "delkey r column k =
     (case r column of
        None \<Rightarrow> Inl (KeyError column)
      | Some (SMap m) \<Rightarrow> Inr (r(column \<mapsto> SMap (m(k := None))))
      | Some _ \<Rightarrow> Inl (TypeError column))"


text \<open>
  The row objects are shared with the table: a change of the row is a change of the
  table's entry for its uuid.
\<close>

definition store_row :: "api \<Rightarrow> string \<Rightarrow> uuid \<Rightarrow> row \<Rightarrow> api" where
  "store_row self tname u r =
     (case tables self tname of
        None \<Rightarrow> self
      | Some t \<Rightarrow> self\<lparr>tables := (tables self)(tname \<mapsto> t\<lparr>rows := AList.update u r (rows t)\<rparr>)\<rparr>)"

text \<open>The map column of a row of a table, as a later read finds it.\<close>

definition read_map :: "api \<Rightarrow> string \<Rightarrow> uuid \<Rightarrow> string \<Rightarrow> (string \<Rightarrow> string option) option" where
  "read_map self tname u column =
     (case lookup self tname u of
        Inl e \<Rightarrow> None
      | Inr r \<Rightarrow> (case r column of Some (SMap m) \<Rightarrow> Some m | _ \<Rightarrow> None))"

subsection \<open>Commands on the ip_port_mappings column\<close>

text \<open>
  \<^verbatim>\<open>netaddr.IPNetwork(backend_ip).version\<close> is the library's: the commands take it as
  the parameter \<open>IPNetwork_version\<close>, which gives the IP version of an address or network
  or the library's \<^verbatim>\<open>AddrFormatError\<close> on a string it cannot parse.
  \<^verbatim>\<open>n_const.IP_VERSION_6\<close> is 6.
\<close>

definition IP_VERSION_6 :: nat where
  "IP_VERSION_6 = 6"

definition bracket :: "string \<Rightarrow> string" where
  "bracket a = ''['' @ a @ '']''"

text \<open>
  \<^verbatim>\<open>
  class DelBackendFromIPPortMapping(command.BaseCommand):
      table = 'Load_Balancer'

      def __init__(self, api, lb, backend_ip):
          super().__init__(api)
          self.lb = lb
          if netaddr.IPNetwork(backend_ip).version == n_const.IP_VERSION_6:
              self.backend_ip = f'[{backend_ip}]'
          else:
              self.backend_ip = backend_ip

      def run_idl(self, txn):
          try:
              ovn_lb = self.api.lookup(self.table, self.lb)
              ovn_lb.delkey('ip_port_mappings', self.backend_ip)
          except Exception:
              LOG.exception("Error deleting backend %s from ip_port_mappings "
                            "for LB uuid %s", str(self.backend_ip), str(self.lb))
  \<close>
\<close>

record del_cmd =
  del_lb :: uuid
  del_backend_ip :: string

definition DelBackendFromIPPortMapping_init ::
  "(string \<Rightarrow> exn + nat) \<Rightarrow> uuid \<Rightarrow> string \<Rightarrow> exn + del_cmd" where
  "DelBackendFromIPPortMapping_init IPNetwork_version lb backend_ip =
     (case IPNetwork_version backend_ip of
        Inl e \<Rightarrow> Inl e
      | Inr v \<Rightarrow>
          Inr \<lparr>del_lb = lb,
               del_backend_ip = (if v = IP_VERSION_6 then bracket backend_ip else backend_ip)\<rparr>)"

definition del_error_message :: "del_cmd \<Rightarrow> string" where
  "del_error_message c =
     ''Error deleting backend '' @ del_backend_ip c @
     '' from ip_port_mappings for LB uuid '' @ del_lb c"

definition DelBackendFromIPPortMapping_run_idl :: "del_cmd \<Rightarrow> api \<Rightarrow> exn + api" where
  "DelBackendFromIPPortMapping_run_idl c self =
     (case (case lookup self ''Load_Balancer'' (del_lb c) of
              Inl e \<Rightarrow> Inl e
            | Inr ovn_lb \<Rightarrow>
                (case delkey ovn_lb ''ip_port_mappings'' (del_backend_ip c) of
                   Inl e \<Rightarrow> Inl e
                 | Inr r \<Rightarrow> Inr (store_row self ''Load_Balancer'' (del_lb c) r))) of
        Inl e \<Rightarrow> Inr (self\<lparr>LOG := LOG self @ [(ERROR, del_error_message c)]\<rparr>)
      | Inr self' \<Rightarrow> Inr self')"

text \<open>
  \<^verbatim>\<open>
  class AddBackendToIPPortMapping(command.BaseCommand):
      table = 'Load_Balancer'

      def __init__(self, api, lb, backend_ip, port_name, src_ip):
          super().__init__(api)
          self.lb = lb
          self.backend_ip = backend_ip
          self.port_name = port_name
          self.src_ip = src_ip
          if netaddr.IPNetwork(backend_ip).version == n_const.IP_VERSION_6:
              self.backend_ip = f'[{backend_ip}]'
              self.src_ip = f'[{src_ip}]'

      def run_idl(self, txn):
          try:
              lb = self.api.lookup(self.table, self.lb)
              lb.setkey('ip_port_mappings', self.backend_ip,
                        '%s:%s' % (self.port_name, self.src_ip))
          except Exception:
              LOG.exception("Error adding backend %s to ip_port_mappings "
                            "for LB uuid %s", str(self.backend_ip), str(self.lb))
  \<close>
\<close>

record add_cmd =
  add_lb :: uuid
  add_backend_ip :: string
  add_port_name :: string
  add_src_ip :: string

definition AddBackendToIPPortMapping_init ::
  "(string \<Rightarrow> exn + nat) \<Rightarrow> uuid \<Rightarrow> string \<Rightarrow> string \<Rightarrow> string \<Rightarrow> exn + add_cmd" where
  "AddBackendToIPPortMapping_init IPNetwork_version lb backend_ip port_name src_ip =
     (case IPNetwork_version backend_ip of
        Inl e \<Rightarrow> Inl e
      | Inr v \<Rightarrow>
          (if v = IP_VERSION_6
           then Inr \<lparr>add_lb = lb, add_backend_ip = bracket backend_ip,
                     add_port_name = port_name, add_src_ip = bracket src_ip\<rparr>
           else Inr \<lparr>add_lb = lb, add_backend_ip = backend_ip,
                     add_port_name = port_name, add_src_ip = src_ip\<rparr>))"

definition add_error_message :: "add_cmd \<Rightarrow> string" where
  "add_error_message c =
     ''Error adding backend '' @ add_backend_ip c @
     '' to ip_port_mappings for LB uuid '' @ add_lb c"

definition AddBackendToIPPortMapping_run_idl :: "add_cmd \<Rightarrow> api \<Rightarrow> exn + api" where
  "AddBackendToIPPortMapping_run_idl c self =
     (case (case lookup self ''Load_Balancer'' (add_lb c) of
              Inl e \<Rightarrow> Inl e
            | Inr lb \<Rightarrow>
                (case setkey lb ''ip_port_mappings'' (add_backend_ip c)
                        (add_port_name c @ '':'' @ add_src_ip c) of
                   Inl e \<Rightarrow> Inl e
                 | Inr r \<Rightarrow> Inr (store_row self ''Load_Balancer'' (add_lb c) r))) of
        Inl e \<Rightarrow> Inr (self\<lparr>LOG := LOG self @ [(ERROR, add_error_message c)]\<rparr>)
      | Inr self' \<Rightarrow> Inr self')"

subsection \<open>A textual classifier of addresses\<close>

text \<open>
  For concrete addresses the version is computed by \<open>ip_version\<close>, which reads the
  standard textual forms: four decimal octets separated by dots for version 4, up to
  eight groups of one to four hexadecimal digits separated by colons, with at most one
  \<^verbatim>\<open>::\<close>, for version 6, each with an optional \<^verbatim>\<open>/prefix\<close> length. Everything else
  is an \<^verbatim>\<open>AddrFormatError\<close>.
\<close>

fun split_on :: "char \<Rightarrow> string \<Rightarrow> string list" where
  "split_on sep [] = [[]]"
| "split_on sep (c # cs) =
     (if c = sep then [] # split_on sep cs
      else (case split_on sep cs of
              [] \<Rightarrow> [[c]]
            | p # ps \<Rightarrow> (c # p) # ps))"

definition is_digit :: "char \<Rightarrow> bool" where
  "is_digit c = (c \<in> set ''0123456789'')"

definition is_hex_digit :: "char \<Rightarrow> bool" where
  "is_hex_digit c = (c \<in> set ''0123456789abcdefABCDEF'')"

definition digit_val :: "char \<Rightarrow> nat" where
  "digit_val c = of_char c - of_char (CHR ''0'')"

definition dec_val :: "string \<Rightarrow> nat" where
  "dec_val s = foldl (\<lambda>n c. 10 * n + digit_val c) 0 s"

definition is_number_upto :: "nat \<Rightarrow> string \<Rightarrow> bool" where
  "is_number_upto bound s = (s \<noteq> [] \<and> length s \<le> 3 \<and> list_all is_digit s \<and> dec_val s \<le> bound)"

definition is_ipv4_address :: "string \<Rightarrow> bool" where
  "is_ipv4_address s =
     (let parts = split_on (CHR ''.'') s
      in length parts = 4 \<and> list_all (is_number_upto 255) parts)"

definition is_hextet :: "string \<Rightarrow> bool" where
  "is_hextet s = (s \<noteq> [] \<and> length s \<le> 4 \<and> list_all is_hex_digit s)"

text \<open>The text before and after the first \<^verbatim>\<open>::\<close>, if there is one.\<close>

fun split_double_colon :: "string \<Rightarrow> (string \<times> string) option" where
  "split_double_colon (c # d # cs) =
     (if c = CHR '':'' \<and> d = CHR '':'' then Some ([], cs)
      else (case split_double_colon (d # cs) of
              None \<Rightarrow> None
            | Some (l, r) \<Rightarrow> Some (c # l, r)))"
| "split_double_colon cs = None"

definition groups_of :: "string \<Rightarrow> string list" where
  "groups_of s = (if s = [] then [] else split_on (CHR '':'') s)"

definition is_ipv6_address :: "string \<Rightarrow> bool" where
  "is_ipv6_address s =
     (case split_double_colon s of
        None \<Rightarrow> length (split_on (CHR '':'') s) = 8 \<and> list_all is_hextet (split_on (CHR '':'') s)
      | Some (l, r) \<Rightarrow>
          list_all is_hextet (groups_of l) \<and> list_all is_hextet (groups_of r) \<and>
          length (groups_of l) + length (groups_of r) \<le> 7)"

definition ip_version :: "string \<Rightarrow> exn + nat" where
  "ip_version s =
     (case split_on (CHR ''/'') s of
        [a] \<Rightarrow>
          (if is_ipv4_address a then Inr 4
           else if is_ipv6_address a then Inr 6
           else Inl (AddrFormatError s))
      | [a, p] \<Rightarrow>
          (if is_ipv4_address a \<and> is_number_upto 32 p then Inr 4
           else if is_ipv6_address a \<and> is_number_upto 128 p then Inr 6
           else Inl (AddrFormatError s))
      | _ \<Rightarrow> Inl (AddrFormatError s))"

subsection \<open>Transactions\<close>







subsection \<open>The row check with retries\<close>

text \<open>
  \<^verbatim>\<open>idlutils.row_by_value(idl, table, column, match)\<close> of the library returns the first
  row of the table whose column equals the match value and raises \<^verbatim>\<open>RowNotFound\<close>
  when there is none.
\<close>

fun first_match :: "string \<Rightarrow> val \<Rightarrow> row list \<Rightarrow> exn + row" where
  "first_match column match [] = Inl RowNotFound"
| "first_match column match (r # rs) =
     (case getattr r column of
        Inl e \<Rightarrow> Inl e
      | Inr v \<Rightarrow> if v = match then Inr r else first_match column match rs)"

definition row_by_value :: "api \<Rightarrow> string \<Rightarrow> string \<Rightarrow> val \<Rightarrow> exn + row" where
  "row_by_value idl tname column match =
     (case getitem (tables idl) tname of
        Inl e \<Rightarrow> Inl e
      | Inr t \<Rightarrow> first_match column match (values_of (rows t)))"

text \<open>
  \<^verbatim>\<open>
  @tenacity.retry(retry=tenacity.retry_if_exception_type(RuntimeError),
                  wait=tenacity.wait_exponential(),
                  stop=tenacity.stop_after_delay(10),
                  reraise=True)
  def check_for_row_by_value_and_retry(self, table, column, match):
      try:
          idlutils.row_by_value(self.idl, table, column, match)
      except idlutils.RowNotFound as e:
          msg = (_("%(match)s does not exist in %(column)s of %(table)s")
                 % {'match': match, 'column': column, 'table': table})
          raise RuntimeError(msg) from e
  \<close>
  The match value is a string, as the names and uuids the callers look for. One attempt
  is \<open>check_for_row_by_value\<close>.
\<close>

definition not_exist_message :: "string \<Rightarrow> string \<Rightarrow> string \<Rightarrow> string" where
  "not_exist_message tname column match =
     match @ '' does not exist in '' @ column @ '' of '' @ tname"

definition check_for_row_by_value :: "api \<Rightarrow> string \<Rightarrow> string \<Rightarrow> string \<Rightarrow> exn + unit" where
  "check_for_row_by_value idl tname column match =
     (case row_by_value idl tname column (Str match) of
        Inl RowNotFound \<Rightarrow> Inl (RuntimeError (not_exist_message tname column match))
      | Inl e \<Rightarrow> Inl e
      | Inr r \<Rightarrow> Inr ())"

text \<open>
  The retry decorator is the library's. Its arguments in the source name the policy,
  which is modelled as the library documents it: an attempt that raises a
  \<^verbatim>\<open>RuntimeError\<close> is retried (\<^verbatim>\<open>retry_if_exception_type\<close>), any other exception
  and any result ends the call; after a failed attempt number \<open>n\<close> the decorator gives
  up when the time since the first attempt has reached 10 seconds
  (\<^verbatim>\<open>stop_after_delay(10)\<close>) and then raises the exception of that attempt
  (\<^verbatim>\<open>reraise=True\<close>); otherwise it sleeps \<open>2 ^ (n - 1)\<close> seconds, at most
  \<open>MAX_WAIT\<close> (\<^verbatim>\<open>wait_exponential()\<close>), before the next attempt.
  Time is counted in milliseconds since the first attempt. The mirror changes with time:
  \<open>idl t\<close> is its content at time \<open>t\<close>, and \<open>dur n\<close> is the time that attempt \<open>n\<close>
  takes.
\<close>

definition MAX_WAIT :: nat where
  "MAX_WAIT = (2 ^ 63 - 1) div 2"

definition wait_exponential :: "nat \<Rightarrow> nat" where
  "wait_exponential attempt_number = 1000 * max 0 (min (2 ^ (attempt_number - 1)) MAX_WAIT)"

definition stop_after_delay :: "nat \<Rightarrow> nat \<Rightarrow> bool" where
  "stop_after_delay max_delay seconds_since_start = (max_delay * 1000 \<le> seconds_since_start)"

record retry_state =
  attempt_number :: nat
  seconds_since_start :: nat

function retrying ::
  "(nat \<Rightarrow> exn + unit) \<Rightarrow> (nat \<Rightarrow> nat) \<Rightarrow> nat \<Rightarrow> nat \<Rightarrow> (exn + unit) \<times> retry_state" where
  "retrying fn dur attempt now =
     (let finished = now + dur attempt;
          st = \<lparr>attempt_number = attempt, seconds_since_start = finished\<rparr>
      in (case fn now of
            Inr r \<Rightarrow> (Inr r, st)
          | Inl e \<Rightarrow>
              if \<not> isinstance_RuntimeError e then (Inl e, st)
              else if stop_after_delay 10 finished then (Inl e, st)
              else retrying fn dur (attempt + 1) (finished + wait_exponential attempt)))"
  by pat_completeness auto
termination
proof (relation "measure (\<lambda>(fn, dur, attempt, now). 10000 - now)")
  show "wf (measure (\<lambda>(fn, dur, attempt, now). 10000 - now))"
    by simp
next
  fix fn :: "nat \<Rightarrow> exn + unit" and dur :: "nat \<Rightarrow> nat" and attempt now finished :: nat
    and st :: retry_state and e :: exn
  assume fin: "finished = now + dur attempt" and go: "\<not> stop_after_delay 10 finished"
  have "1 \<le> min ((2::nat) ^ (attempt - 1)) MAX_WAIT"
    by (simp add: MAX_WAIT_def)
  then have "1000 \<le> wait_exponential attempt"
    by (simp add: wait_exponential_def)
  with fin go
  show "((fn, dur, attempt + 1, finished + wait_exponential attempt), (fn, dur, attempt, now))
          \<in> measure (\<lambda>(fn, dur, attempt, now). 10000 - now)"
    by (simp add: stop_after_delay_def)
qed

declare retrying.simps [simp del]

definition check_for_row_by_value_and_retry ::
  "(nat \<Rightarrow> api) \<Rightarrow> (nat \<Rightarrow> nat) \<Rightarrow> string \<Rightarrow> string \<Rightarrow> string \<Rightarrow> (exn + unit) \<times> retry_state" where
  "check_for_row_by_value_and_retry idl dur tname column match =
     retrying (\<lambda>t. check_for_row_by_value (idl t) tname column match) dur 1 0"

text \<open>
  The times of the attempts when every attempt fails and is retried: attempt 1 starts at
  time 0, and attempt \<open>n + 1\<close> starts when attempt \<open>n\<close> has ended and the wait after
  it has passed.
\<close>

fun attempt_start :: "(nat \<Rightarrow> nat) \<Rightarrow> nat \<Rightarrow> nat" where
  "attempt_start dur 0 = 0"
| "attempt_start dur (Suc 0) = 0"
| "attempt_start dur (Suc (Suc k)) =
     attempt_start dur (Suc k) + dur (Suc k) + wait_exponential (Suc k)"

definition attempt_end :: "(nat \<Rightarrow> nat) \<Rightarrow> nat \<Rightarrow> nat" where
  "attempt_end dur n = attempt_start dur n + dur n"

subsection \<open>Stopping the southbound connection\<close>

text \<open>
  \<^verbatim>\<open>
  def start(self):
      self.conn = connection.Connection(
          self, timeout=config.get_ovn_ovsdb_timeout())
      return OvsdbSbOvnIdl(self.conn)

  def stop(self):
      # Close the running connection if it has been initalized
      if hasattr(self, 'conn'):
          if not self.conn.stop(timeout=config.get_ovn_ovsdb_timeout()):
              LOG.debug("Connection terminated to OvnSb "
                        "but a thread is still alive")
          del self.conn
      # complete the shutdown for the event handler
      self.notify_handler.shutdown()
      # Close the idl session
      self.close()
  \<close>
  Modelled from the spec: the notification handler and the session of the IDL belong to
  the parent class \<^verbatim>\<open>ovsdb_monitor.OvnIdl\<close> and to the library, which are not in this
  file. Following the spec (the background notification processing is shut down, the
  session is released, and releasing twice is safe), each is a flag that the constructor
  sets and that \<^verbatim>\<open>shutdown\<close> and \<^verbatim>\<open>close\<close> clear. A connection carries the answer
  that its \<^verbatim>\<open>stop\<close> will give: whether its thread ended within the timeout.
  \<open>conn_stops\<close> counts the calls of \<^verbatim>\<open>conn.stop\<close>.
\<close>

record connection =
  stops_cleanly :: bool

record OvnSbIdlForLb =
  conn :: "connection option"
  notify_handler_running :: bool
  session_open :: bool
  conn_stops :: nat
  sb_LOG :: "log_record list"

definition OvnSbIdlForLb_init :: OvnSbIdlForLb where
  "OvnSbIdlForLb_init =
     \<lparr>conn = None, notify_handler_running = True, session_open = True,
      conn_stops = 0, sb_LOG = []\<rparr>"

definition start :: "connection \<Rightarrow> OvnSbIdlForLb \<Rightarrow> OvnSbIdlForLb" where
  "start c self = self\<lparr>conn := Some c\<rparr>"

definition notify_handler_shutdown :: "OvnSbIdlForLb \<Rightarrow> OvnSbIdlForLb" where
  "notify_handler_shutdown self = self\<lparr>notify_handler_running := False\<rparr>"

definition close :: "OvnSbIdlForLb \<Rightarrow> OvnSbIdlForLb" where
  "close self = self\<lparr>session_open := False\<rparr>"

definition stop :: "OvnSbIdlForLb \<Rightarrow> exn + OvnSbIdlForLb" where
  "stop self =
     (let self1 =
        (case conn self of
           None \<Rightarrow> self
         | Some c \<Rightarrow>
             (let self2 = self\<lparr>conn_stops := conn_stops self + 1\<rparr>;
                  self3 = (if \<not> stops_cleanly c
                           then self2\<lparr>sb_LOG := sb_LOG self2 @
                                  [(DEBUG, ''Connection terminated to OvnSb but a thread is still alive'')]\<rparr>
                           else self2)
              in self3\<lparr>conn := None\<rparr>))
      in Inr (close (notify_handler_shutdown self1)))"

subsection \<open>Reading an entry after a command\<close>

text \<open>
  The entry for a key in the \<^verbatim>\<open>ip_port_mappings\<close> column of a load balancer, read in
  the state that a command returned.
\<close>

definition ip_port_mapping :: "exn + api \<Rightarrow> uuid \<Rightarrow> string \<Rightarrow> string option" where
  "ip_port_mapping res lb k =
     (case res of
        Inl e \<Rightarrow> None
      | Inr self \<Rightarrow>
          (case read_map self ''Load_Balancer'' lb ''ip_port_mappings'' of
             None \<Rightarrow> None
           | Some m \<Rightarrow> m k))"

subsection \<open>An example database\<close>

text \<open>
  Two logical routers that refer to load balancers, one load balancer with one mapping,
  and the global row with its configuration counter.
\<close>

definition ex_nb :: api where
  "ex_nb =
     \<lparr>tables =
        [''Logical_Router'' \<mapsto>
           \<lparr>columns = [''name'', ''load_balancer''],
            rows = [(''lr1'', [''name'' \<mapsto> Str ''r1'', ''load_balancer'' \<mapsto> Refs [''lb1'', ''lb2'']]),
                    (''lr2'', [''name'' \<mapsto> Str ''r2'', ''load_balancer'' \<mapsto> Refs [''lb2'']])]\<rparr>,
         ''Load_Balancer'' \<mapsto>
           \<lparr>columns = [''name'', ''ip_port_mappings''],
            rows = [(''lb1'', [''name'' \<mapsto> Str ''lb-a'',
                              ''ip_port_mappings'' \<mapsto> SMap [''10.0.0.9'' \<mapsto> ''port-z:10.0.0.1'']])]\<rparr>,
         ''NB_Global'' \<mapsto>
           \<lparr>columns = [''nb_cfg''],
            rows = [(''g1'', [''nb_cfg'' \<mapsto> Num 7])]\<rparr>],
      LOG = []\<rparr>"

definition ex_empty_global :: api where
  "ex_empty_global = \<lparr>tables = [''NB_Global'' \<mapsto> \<lparr>columns = [''nb_cfg''], rows = []\<rparr>], LOG = []\<rparr>"

subsection \<open>Example transactions\<close>






subsection \<open>Example mirrors in time\<close>

text \<open>
  A mirror that never changes, lookups that take no time, and lookups that take six
  seconds each.
\<close>

definition ex_idl :: "nat \<Rightarrow> api" where
  "ex_idl t = ex_nb"

definition ex_dur :: "nat \<Rightarrow> nat" where
  "ex_dur n = 0"

definition ex_dur_slow :: "nat \<Rightarrow> nat" where
  "ex_dur_slow n = 6000"

section \<open>Properties\<close>

subsection \<open>Presence of columns\<close>

text \<open>
  C6. For every table name and every column name, \<open>is_col_present\<close> returns false, and
  raises nothing, when the table is not among the registered tables; otherwise it returns
  true exactly when the column name is among the columns of that table.
\<close>

theorem is_col_present_spec:
  "is_col_present self table_name col_name =
     Inr (case tables self table_name of
            None \<Rightarrow> False
          | Some t \<Rightarrow> col_name \<in> set (columns t))"
  by (simp add: is_col_present_def is_table_present_def getitem_def
      split: option.splits)

subsection \<open>Finding the rows that refer to a load balancer\<close>

lemma find_lb_items_filter:
  "list_all has_owner_relation rs \<Longrightarrow>
   find_lb_items lb rs = Inr (map RowView (filter (references lb) rs))"
proof (induction rs)
  case Nil
  then show ?case by simp
next
  case (Cons r rs)
  from Cons.prems obtain us where us: "r ''load_balancer'' = Some (Refs us)"
    by (auto simp: has_owner_relation_def split: option.splits val.splits)
  from Cons have IH: "find_lb_items lb rs = Inr (map RowView (filter (references lb) rs))"
    by simp
  have ref: "references lb r = (lb \<in> set us)"
    by (simp add: references_def us)
  show ?case
    by (simp add: IH us ref getattr_def contains_def)
qed

text \<open>
  C7, as the code has it. For every table of the mirror whose rows have the
  load-balancer relation, and every load balancer, \<open>FindLbInTableCommand\<close> returns
  exactly the rows of the table whose \<^verbatim>\<open>load_balancer\<close> field contains the load
  balancer, in the order of the table and each wrapped in a row view; when no row
  matches, the result is the empty list and no error.
\<close>

theorem find_lb_in_table_spec:
  assumes "tables self tname = Some t"
    and "list_all has_owner_relation (values_of (rows t))"
  shows "FindLbInTableCommand_run_idl self lb tname =
           Inr (map RowView (filter (references lb) (values_of (rows t)))) \<and>
         (list_all (\<lambda>r. \<not> references lb r) (values_of (rows t)) \<longrightarrow>
            FindLbInTableCommand_run_idl self lb tname = Inr [])"
proof -
  have run: "FindLbInTableCommand_run_idl self lb tname =
      Inr (map RowView (filter (references lb) (values_of (rows t))))"
    using assms by (simp add: FindLbInTableCommand_run_idl_def getitem_def find_lb_items_filter)
  have "filter (references lb) (values_of (rows t)) = []"
    if "list_all (\<lambda>r. \<not> references lb r) (values_of (rows t))"
    using that by (simp add: list_all_iff filter_empty_conv)
  with run show ?thesis by simp
qed

theorem find_lb_in_table_spec_witness:
  "FindLbInTableCommand_run_idl ex_nb ''lb1'' ''Logical_Router'' =
     Inr [RowView [''name'' \<mapsto> Str ''r1'', ''load_balancer'' \<mapsto> Refs [''lb1'', ''lb2'']]] \<and>
   FindLbInTableCommand_run_idl ex_nb ''lb3'' ''Logical_Router'' = Inr []"
proof -
  let ?t = "\<lparr>columns = [''name'', ''load_balancer''],
        rows = [(''lr1'', [''name'' \<mapsto> Str ''r1'', ''load_balancer'' \<mapsto> Refs [''lb1'', ''lb2'']]),
                (''lr2'', [''name'' \<mapsto> Str ''r2'', ''load_balancer'' \<mapsto> Refs [''lb2'']])]\<rparr>"
  have t: "tables ex_nb ''Logical_Router'' = Some ?t"
    by (simp add: ex_nb_def)
  have own: "list_all has_owner_relation (values_of (rows ?t))"
    by (simp add: values_of_def has_owner_relation_def)
  have none: "list_all (\<lambda>r. \<not> references ''lb3'' r) (values_of (rows ?t))"
    by (simp add: values_of_def references_def)
  from find_lb_in_table_spec [OF t own, of "''lb1''"]
  have a: "FindLbInTableCommand_run_idl ex_nb ''lb1'' ''Logical_Router'' =
     Inr [RowView [''name'' \<mapsto> Str ''r1'', ''load_balancer'' \<mapsto> Refs [''lb1'', ''lb2'']]]"
    by (simp add: values_of_def references_def)
  from find_lb_in_table_spec [OF t own, of "''lb3''"] none
  have b: "FindLbInTableCommand_run_idl ex_nb ''lb3'' ''Logical_Router'' = Inr []"
    by blast
  from a b show ?thesis by simp
qed

text \<open>
  C7, as the claim states it, fails: the command is not free of errors for every table.
  For a mirrored table whose rows have no \<^verbatim>\<open>load_balancer\<close> field, and for a name that
  is no table of the mirror, no row matches and the command raises instead of returning
  the empty list.
\<close>

theorem find_lb_in_table_raises:
  "FindLbInTableCommand_run_idl ex_nb ''lb3'' ''Load_Balancer'' =
     Inl (AttributeError ''load_balancer'') \<and>
   FindLbInTableCommand_run_idl ex_nb ''lb3'' ''NoSuchTable'' = Inl (KeyError ''NoSuchTable'') \<and>
   FindLbInTableCommand_run_idl ex_nb ''lb3'' ''Load_Balancer'' \<noteq> Inr [] \<and>
   FindLbInTableCommand_run_idl ex_nb ''lb3'' ''NoSuchTable'' \<noteq> Inr []"
  by (simp add: FindLbInTableCommand_run_idl_def getitem_def values_of_def getattr_def ex_nb_def)

subsection \<open>The global row\<close>

text \<open>
  C10. \<open>nb_global\<close> returns the first row of the mirrored \<^verbatim>\<open>NB_Global\<close> table; when
  that table has no row it raises \<^verbatim>\<open>StopIteration\<close> and returns nothing.
\<close>

theorem nb_global_first_row:
  assumes "tables self ''NB_Global'' = Some t"
  shows "(rows t = [] \<longrightarrow> nb_global self = Inl StopIteration) \<and>
         (rows t \<noteq> [] \<longrightarrow> nb_global self = Inr (hd (rows t)))"
  using assms by (simp add: nb_global_def getitem_def split: list.splits)

theorem nb_global_first_row_witness:
  "nb_global ex_empty_global = Inl StopIteration \<and>
   nb_global ex_nb = Inr (''g1'', [''nb_cfg'' \<mapsto> Num 7])"
proof -
  have e: "tables ex_empty_global ''NB_Global'' = Some \<lparr>columns = [''nb_cfg''], rows = []\<rparr>"
    by (simp add: ex_empty_global_def)
  have n: "tables ex_nb ''NB_Global'' =
      Some \<lparr>columns = [''nb_cfg''], rows = [(''g1'', [''nb_cfg'' \<mapsto> Num 7])]\<rparr>"
    by (simp add: ex_nb_def)
  from nb_global_first_row [OF e] nb_global_first_row [OF n] show ?thesis
    by simp
qed

subsection \<open>Removing and adding a backend mapping\<close>

lemma bracket_neq: "bracket a \<noteq> a"
proof
  assume "bracket a = a"
  then have "length (bracket a) = length a" by simp
  then show False by (simp add: bracket_def)
qed

lemma lookup_store_row:
  "tables self tname = Some t \<Longrightarrow> lookup (store_row self tname u r) tname u = Inr r"
  by (simp add: lookup_def store_row_def getitem_def AList.update_conv')

lemma LOG_store_row: "LOG (store_row self tname u r) = LOG self"
  by (simp add: store_row_def split: option.splits)

lemma store_row_same:
  assumes "lookup self tname u = Inr r"
  shows "store_row self tname u r = self"
proof -
  from assms obtain t where t: "tables self tname = Some t" and r: "map_of (rows t) u = Some r"
    by (auto simp: lookup_def getitem_def split: option.splits)
  have "AList.update u r (rows t) = rows t"
    using r by (rule AList.update_triv)
  moreover have "(tables self)(tname \<mapsto> t) = tables self"
    using t by (rule map_upd_triv)
  ultimately show ?thesis
    by (simp add: store_row_def t)
qed

lemma read_map_SomeD:
  assumes "read_map self tname u column = Some m"
  obtains t r where "tables self tname = Some t" and "lookup self tname u = Inr r"
    and "r column = Some (SMap m)"
  using assms
  by (auto simp: read_map_def lookup_def getitem_def split: sum.splits option.splits val.splits)

lemma read_map_store_row:
  "tables self tname = Some t \<Longrightarrow>
   read_map (store_row self tname u (r(column \<mapsto> SMap m))) tname u column = Some m"
  by (simp add: read_map_def lookup_store_row)

lemma del_run_idl_found:
  assumes "read_map self ''Load_Balancer'' (del_lb c) ''ip_port_mappings'' = Some m"
  shows "\<exists>self'. DelBackendFromIPPortMapping_run_idl c self = Inr self' \<and>
           read_map self' ''Load_Balancer'' (del_lb c) ''ip_port_mappings'' =
             Some (m(del_backend_ip c := None)) \<and>
           LOG self' = LOG self"
proof -
  from assms obtain t r where t: "tables self ''Load_Balancer'' = Some t"
    and r: "lookup self ''Load_Balancer'' (del_lb c) = Inr r"
    and m: "r ''ip_port_mappings'' = Some (SMap m)"
    by (rule read_map_SomeD)
  have "DelBackendFromIPPortMapping_run_idl c self =
      Inr (store_row self ''Load_Balancer'' (del_lb c)
             (r(''ip_port_mappings'' \<mapsto> SMap (m(del_backend_ip c := None)))))"
    by (simp add: DelBackendFromIPPortMapping_run_idl_def r delkey_def m)
  then show ?thesis
    using t by (simp add: read_map_store_row LOG_store_row)
qed

lemma del_run_idl_absent_key:
  assumes "read_map self ''Load_Balancer'' (del_lb c) ''ip_port_mappings'' = Some m"
    and "m (del_backend_ip c) = None"
  shows "DelBackendFromIPPortMapping_run_idl c self = Inr self"
proof -
  from assms(1) obtain t r where t: "tables self ''Load_Balancer'' = Some t"
    and r: "lookup self ''Load_Balancer'' (del_lb c) = Inr r"
    and m: "r ''ip_port_mappings'' = Some (SMap m)"
    by (rule read_map_SomeD)
  have "m(del_backend_ip c := None) = m"
    using assms(2) by (simp add: fun_upd_idem)
  moreover have "r(''ip_port_mappings'' \<mapsto> SMap m) = r"
    using m by (rule map_upd_triv)
  ultimately have "DelBackendFromIPPortMapping_run_idl c self =
      Inr (store_row self ''Load_Balancer'' (del_lb c) r)"
    by (simp add: DelBackendFromIPPortMapping_run_idl_def r delkey_def m)
  with r show ?thesis by (simp add: store_row_same)
qed

lemma del_run_idl_returns:
  "\<exists>self'. DelBackendFromIPPortMapping_run_idl c self = Inr self'"
  by (simp add: DelBackendFromIPPortMapping_run_idl_def split: sum.splits)

lemma del_run_idl_raised:
  "lookup self ''Load_Balancer'' (del_lb c) = Inl e \<or>
   (\<exists>r. lookup self ''Load_Balancer'' (del_lb c) = Inr r \<and>
        delkey r ''ip_port_mappings'' (del_backend_ip c) = Inl e) \<Longrightarrow>
   DelBackendFromIPPortMapping_run_idl c self =
           Inr (self\<lparr>LOG := LOG self @ [(ERROR, del_error_message c)]\<rparr>)"
  by (auto simp: DelBackendFromIPPortMapping_run_idl_def)

lemma del_init_key:
  assumes "DelBackendFromIPPortMapping_init ver lb backend_ip = Inr c"
  shows "del_lb c = lb \<and>
         del_backend_ip c = (if ver backend_ip = Inr IP_VERSION_6 then bracket backend_ip else backend_ip)"
  using assms by (auto simp: DelBackendFromIPPortMapping_init_def split: sum.splits if_splits)

lemma ex_read: "read_map ex_nb ''Load_Balancer'' ''lb1'' ''ip_port_mappings'' = Some [''10.0.0.9'' \<mapsto> ''port-z:10.0.0.1'']"
  by (simp add: read_map_def lookup_def getitem_def ex_nb_def)

text \<open>
  C4. A \<open>DelBackendFromIPPortMapping\<close> command holds the backend address in brackets
  exactly when the address is of version 6. Running it never raises: when the load
  balancer has the map column, the key is deleted from it and nothing is logged; when the
  key is not in the map, the state is unchanged; when the lookup of the load balancer or
  the deletion raises, the error is logged and the state is otherwise unchanged.
\<close>

theorem del_backend_spec:
  assumes init: "DelBackendFromIPPortMapping_init ver lb backend_ip = Inr c"
  shows "del_backend_ip c = (if ver backend_ip = Inr IP_VERSION_6 then bracket backend_ip else backend_ip) \<and>
         (del_backend_ip c = bracket backend_ip \<longleftrightarrow> ver backend_ip = Inr IP_VERSION_6) \<and>
         (\<exists>self'. DelBackendFromIPPortMapping_run_idl c self = Inr self') \<and>
         (\<forall>m. read_map self ''Load_Balancer'' lb ''ip_port_mappings'' = Some m \<longrightarrow>
            (\<exists>self'. DelBackendFromIPPortMapping_run_idl c self = Inr self' \<and>
               read_map self' ''Load_Balancer'' lb ''ip_port_mappings'' = Some (m(del_backend_ip c := None)) \<and>
               LOG self' = LOG self)) \<and>
         (\<forall>m. read_map self ''Load_Balancer'' lb ''ip_port_mappings'' = Some m \<and>
              m (del_backend_ip c) = None \<longrightarrow>
            DelBackendFromIPPortMapping_run_idl c self = Inr self) \<and>
         (\<forall>e. lookup self ''Load_Balancer'' lb = Inl e \<or>
              (\<exists>r. lookup self ''Load_Balancer'' lb = Inr r \<and>
                   delkey r ''ip_port_mappings'' (del_backend_ip c) = Inl e) \<longrightarrow>
            DelBackendFromIPPortMapping_run_idl c self =
              Inr (self\<lparr>LOG := LOG self @ [(ERROR, del_error_message c)]\<rparr>))"
proof -
  from del_init_key [OF init] have lb: "del_lb c = lb"
    and key: "del_backend_ip c = (if ver backend_ip = Inr IP_VERSION_6 then bracket backend_ip else backend_ip)"
    by simp_all
  have iff: "del_backend_ip c = bracket backend_ip \<longleftrightarrow> ver backend_ip = Inr IP_VERSION_6"
    using key bracket_neq [of backend_ip] by (auto split: if_splits)
  note a = del_run_idl_returns [of c self]
  note b = del_run_idl_found [of self c, unfolded lb]
  note d = del_run_idl_absent_key [of self c, unfolded lb]
  note f = del_run_idl_raised [of self c, unfolded lb]
  show ?thesis
    using key iff a b d f by blast
qed

theorem del_backend_spec_witness:
  "DelBackendFromIPPortMapping_init ip_version ''lb1'' ''2001:db8::1'' =
     Inr \<lparr>del_lb = ''lb1'', del_backend_ip = ''[2001:db8::1]''\<rparr> \<and>
   DelBackendFromIPPortMapping_run_idl \<lparr>del_lb = ''lb1'', del_backend_ip = ''[2001:db8::1]''\<rparr> ex_nb =
     Inr ex_nb"
proof -
  have v: "ip_version ''2001:db8::1'' = Inr 6"
    by code_simp
  have init: "DelBackendFromIPPortMapping_init ip_version ''lb1'' ''2001:db8::1'' =
     Inr \<lparr>del_lb = ''lb1'', del_backend_ip = ''[2001:db8::1]''\<rparr>"
    by (simp add: DelBackendFromIPPortMapping_init_def v IP_VERSION_6_def bracket_def)
  have absent: "[''10.0.0.9'' \<mapsto> ''port-z:10.0.0.1''] ''[2001:db8::1]'' = None"
    by simp
  from del_backend_spec [of ip_version "''lb1''" "''2001:db8::1''", OF init, of ex_nb]
  have "\<forall>m. read_map ex_nb ''Load_Balancer'' ''lb1'' ''ip_port_mappings'' = Some m \<and>
            m (del_backend_ip \<lparr>del_lb = ''lb1'', del_backend_ip = ''[2001:db8::1]''\<rparr>) = None \<longrightarrow>
          DelBackendFromIPPortMapping_run_idl \<lparr>del_lb = ''lb1'', del_backend_ip = ''[2001:db8::1]''\<rparr> ex_nb =
            Inr ex_nb"
    by blast
  with ex_read absent
  have "DelBackendFromIPPortMapping_run_idl \<lparr>del_lb = ''lb1'', del_backend_ip = ''[2001:db8::1]''\<rparr> ex_nb =
     Inr ex_nb"
    by simp
  with init show ?thesis by simp
qed

lemma add_run_idl_found:
  assumes "read_map self ''Load_Balancer'' (add_lb c) ''ip_port_mappings'' = Some m"
  shows "\<exists>self'. AddBackendToIPPortMapping_run_idl c self = Inr self' \<and>
           read_map self' ''Load_Balancer'' (add_lb c) ''ip_port_mappings'' =
             Some (m(add_backend_ip c \<mapsto> add_port_name c @ '':'' @ add_src_ip c)) \<and>
           LOG self' = LOG self"
proof -
  from assms obtain t r where t: "tables self ''Load_Balancer'' = Some t"
    and r: "lookup self ''Load_Balancer'' (add_lb c) = Inr r"
    and m: "r ''ip_port_mappings'' = Some (SMap m)"
    by (rule read_map_SomeD)
  have "AddBackendToIPPortMapping_run_idl c self =
      Inr (store_row self ''Load_Balancer'' (add_lb c)
             (r(''ip_port_mappings'' \<mapsto>
                  SMap (m(add_backend_ip c \<mapsto> add_port_name c @ '':'' @ add_src_ip c)))))"
    by (simp add: AddBackendToIPPortMapping_run_idl_def r setkey_def m)
  then show ?thesis
    using t by (simp add: read_map_store_row LOG_store_row)
qed

lemma add_init_fields:
  assumes "ver backend_ip = Inr v"
  shows "AddBackendToIPPortMapping_init ver lb backend_ip port_name src_ip =
           Inr \<lparr>add_lb = lb,
                add_backend_ip = (if v = IP_VERSION_6 then bracket backend_ip else backend_ip),
                add_port_name = port_name,
                add_src_ip = (if v = IP_VERSION_6 then bracket src_ip else src_ip)\<rparr>"
  using assms by (simp add: AddBackendToIPPortMapping_init_def)

text \<open>
  C1, as the code has it. An \<open>AddBackendToIPPortMapping\<close> command holds the backend
  address in brackets exactly when the backend address is of version 6, and the source
  address in brackets exactly when the backend address is of version 6: one test, on the
  backend address, decides both. After the command has run on a load balancer that has
  the map column, the column maps the stored key to the port name, a colon and the
  stored source address, and is unchanged at the other keys.
\<close>

theorem add_backend_spec:
  assumes ver: "ver backend_ip = Inr v"
  shows "\<exists>c. AddBackendToIPPortMapping_init ver lb backend_ip port_name src_ip = Inr c \<and>
           add_backend_ip c = (if v = IP_VERSION_6 then bracket backend_ip else backend_ip) \<and>
           (add_backend_ip c = bracket backend_ip \<longleftrightarrow> v = IP_VERSION_6) \<and>
           add_src_ip c = (if v = IP_VERSION_6 then bracket src_ip else src_ip) \<and>
           (\<forall>m. read_map self ''Load_Balancer'' lb ''ip_port_mappings'' = Some m \<longrightarrow>
              (\<exists>self'. AddBackendToIPPortMapping_run_idl c self = Inr self' \<and>
                 read_map self' ''Load_Balancer'' lb ''ip_port_mappings'' =
                   Some (m(add_backend_ip c \<mapsto> port_name @ '':'' @ add_src_ip c))))"
proof -
  let ?c = "\<lparr>add_lb = lb,
             add_backend_ip = (if v = IP_VERSION_6 then bracket backend_ip else backend_ip),
             add_port_name = port_name,
             add_src_ip = (if v = IP_VERSION_6 then bracket src_ip else src_ip)\<rparr>"
  have init: "AddBackendToIPPortMapping_init ver lb backend_ip port_name src_ip = Inr ?c"
    using ver by (rule add_init_fields)
  have iff: "add_backend_ip ?c = bracket backend_ip \<longleftrightarrow> v = IP_VERSION_6"
    using bracket_neq [of backend_ip] by auto
  have run: "\<exists>self'. AddBackendToIPPortMapping_run_idl ?c self = Inr self' \<and>
                 read_map self' ''Load_Balancer'' lb ''ip_port_mappings'' =
                   Some (m(add_backend_ip ?c \<mapsto> port_name @ '':'' @ add_src_ip ?c))"
    if "read_map self ''Load_Balancer'' lb ''ip_port_mappings'' = Some m" for m
    using add_run_idl_found [of self ?c m] that by auto
  from init iff run show ?thesis
    by (intro exI [of _ ?c]) simp
qed

theorem add_backend_spec_witness:
  "ip_port_mapping
     (AddBackendToIPPortMapping_run_idl
        \<lparr>add_lb = ''lb1'', add_backend_ip = ''[2001:db8::1]'', add_port_name = ''port-a'',
         add_src_ip = ''[2001:db8::2]''\<rparr> ex_nb) ''lb1'' ''[2001:db8::1]'' =
     Some ''port-a:[2001:db8::2]'' \<and>
   AddBackendToIPPortMapping_init ip_version ''lb1'' ''2001:db8::1'' ''port-a'' ''2001:db8::2'' =
     Inr \<lparr>add_lb = ''lb1'', add_backend_ip = ''[2001:db8::1]'', add_port_name = ''port-a'',
         add_src_ip = ''[2001:db8::2]''\<rparr>"
proof -
  have v: "ip_version ''2001:db8::1'' = Inr 6"
    by code_simp
  let ?c = "\<lparr>add_lb = ''lb1'', add_backend_ip = ''[2001:db8::1]'', add_port_name = ''port-a'',
         add_src_ip = ''[2001:db8::2]''\<rparr>"
  have init: "AddBackendToIPPortMapping_init ip_version ''lb1'' ''2001:db8::1'' ''port-a'' ''2001:db8::2'' =
     Inr ?c"
    by (simp add: AddBackendToIPPortMapping_init_def v IP_VERSION_6_def bracket_def)
  from add_backend_spec [of ip_version "''2001:db8::1''" 6 "''lb1''" "''port-a''" "''2001:db8::2''" ex_nb, OF v]
  obtain c where c: "AddBackendToIPPortMapping_init ip_version ''lb1'' ''2001:db8::1'' ''port-a'' ''2001:db8::2'' = Inr c"
    and run: "\<forall>m. read_map ex_nb ''Load_Balancer'' ''lb1'' ''ip_port_mappings'' = Some m \<longrightarrow>
              (\<exists>self'. AddBackendToIPPortMapping_run_idl c ex_nb = Inr self' \<and>
                 read_map self' ''Load_Balancer'' ''lb1'' ''ip_port_mappings'' =
                   Some (m(add_backend_ip c \<mapsto> ''port-a'' @ '':'' @ add_src_ip c)))"
    by blast
  from c init have eq: "c = ?c" by simp
  from run ex_read obtain self' where
    "AddBackendToIPPortMapping_run_idl ?c ex_nb = Inr self'"
    "read_map self' ''Load_Balancer'' ''lb1'' ''ip_port_mappings'' =
       Some ([''10.0.0.9'' \<mapsto> ''port-z:10.0.0.1''](add_backend_ip ?c \<mapsto> ''port-a'' @ '':'' @ add_src_ip ?c))"
    unfolding eq by blast
  then have "ip_port_mapping (AddBackendToIPPortMapping_run_idl ?c ex_nb) ''lb1'' ''[2001:db8::1]'' =
     Some ''port-a:[2001:db8::2]''"
    by (simp add: ip_port_mapping_def)
  with init show ?thesis by simp
qed

text \<open>
  C1, as the claim states it, fails: with a version 4 backend address and a version 6
  source address the value is stored without brackets around the source address.
\<close>

theorem add_backend_source_not_independent:
  "ip_version ''10.0.0.1'' = Inr 4 \<and> ip_version ''2001:db8::2'' = Inr 6 \<and>
   AddBackendToIPPortMapping_init ip_version ''lb1'' ''10.0.0.1'' ''port-a'' ''2001:db8::2'' =
     Inr \<lparr>add_lb = ''lb1'', add_backend_ip = ''10.0.0.1'', add_port_name = ''port-a'',
          add_src_ip = ''2001:db8::2''\<rparr> \<and>
   ip_port_mapping
     (AddBackendToIPPortMapping_run_idl
        \<lparr>add_lb = ''lb1'', add_backend_ip = ''10.0.0.1'', add_port_name = ''port-a'',
         add_src_ip = ''2001:db8::2''\<rparr> ex_nb) ''lb1'' ''10.0.0.1'' =
     Some ''port-a:2001:db8::2'' \<and>
   ''port-a:2001:db8::2'' \<noteq> ''port-a:'' @ bracket ''2001:db8::2''"
proof -
  have v4: "ip_version ''10.0.0.1'' = Inr 4"
    by code_simp
  have v6: "ip_version ''2001:db8::2'' = Inr 6"
    by code_simp
  have init: "AddBackendToIPPortMapping_init ip_version ''lb1'' ''10.0.0.1'' ''port-a'' ''2001:db8::2'' =
     Inr \<lparr>add_lb = ''lb1'', add_backend_ip = ''10.0.0.1'', add_port_name = ''port-a'',
          add_src_ip = ''2001:db8::2''\<rparr>"
    by (simp add: AddBackendToIPPortMapping_init_def v4 IP_VERSION_6_def)
  have run: "ip_port_mapping
     (AddBackendToIPPortMapping_run_idl
        \<lparr>add_lb = ''lb1'', add_backend_ip = ''10.0.0.1'', add_port_name = ''port-a'',
         add_src_ip = ''2001:db8::2''\<rparr> ex_nb) ''lb1'' ''10.0.0.1'' =
     Some ''port-a:2001:db8::2''"
    by (simp add: ip_port_mapping_def AddBackendToIPPortMapping_run_idl_def lookup_def
        getitem_def setkey_def store_row_def read_map_def ex_nb_def)
  have neq: "''port-a:2001:db8::2'' \<noteq> ''port-a:'' @ bracket ''2001:db8::2''"
    by (simp add: bracket_def)
  from v4 v6 init run neq show ?thesis by simp
qed

text \<open>
  C9. The address is parsed when the command is constructed: for a backend address that
  the parser rejects, the construction of either command raises the parser's error, and
  no command exists whose run could catch and log it.
\<close>

theorem unparseable_backend_raises:
  assumes "ver backend_ip = Inl e"
  shows "DelBackendFromIPPortMapping_init ver lb backend_ip = Inl e \<and>
         AddBackendToIPPortMapping_init ver lb backend_ip port_name src_ip = Inl e"
  using assms
  by (simp add: DelBackendFromIPPortMapping_init_def AddBackendToIPPortMapping_init_def)

theorem unparseable_backend_raises_witness:
  "DelBackendFromIPPortMapping_init ip_version ''lb1'' ''not-an-ip'' =
     Inl (AddrFormatError ''not-an-ip'') \<and>
   AddBackendToIPPortMapping_init ip_version ''lb1'' ''not-an-ip'' ''port-a'' ''10.0.0.2'' =
     Inl (AddrFormatError ''not-an-ip'')"
proof -
  have "ip_version ''not-an-ip'' = Inl (AddrFormatError ''not-an-ip'')"
    by code_simp
  from unparseable_backend_raises [of ip_version "''not-an-ip''", OF this] show ?thesis by simp
qed

subsection \<open>The pre-commit step\<close>



subsection \<open>Revision conflicts\<close>




subsection \<open>The bounded retry\<close>

lemma wait_exponential_small:
  "attempt \<le> 5 \<Longrightarrow> wait_exponential attempt = 1000 * 2 ^ (attempt - 1)"
proof -
  assume "attempt \<le> 5"
  then have "(2::nat) ^ (attempt - 1) \<le> 2 ^ 4"
    by (intro power_increasing) auto
  then have "min ((2::nat) ^ (attempt - 1)) MAX_WAIT = 2 ^ (attempt - 1)"
    by (simp add: MAX_WAIT_def)
  then show ?thesis
    by (simp add: wait_exponential_def)
qed

lemma attempt_start_next:
  "1 \<le> n \<Longrightarrow> attempt_start dur (n + 1) = attempt_start dur n + dur n + wait_exponential n"
  by (cases n) simp_all

lemma retrying_schedule:
  "\<forall>t. fn t = Inl (RuntimeError msg) \<Longrightarrow> 1 \<le> attempt \<Longrightarrow> attempt \<le> 5 \<Longrightarrow>
   now = attempt_start dur attempt \<Longrightarrow>
   1000 * 2 ^ (attempt - 1) \<le> now + 1000 \<Longrightarrow>
   (\<forall>k. 1 \<le> k \<and> k < attempt \<longrightarrow> attempt_end dur k < 10000) \<Longrightarrow>
   \<exists>n. retrying fn dur attempt now =
         (Inl (RuntimeError msg),
          \<lparr>attempt_number = n, seconds_since_start = attempt_end dur n\<rparr>) \<and>
       1 \<le> n \<and> n \<le> 5 \<and> 10000 \<le> attempt_end dur n \<and>
       (\<forall>k. 1 \<le> k \<and> k < n \<longrightarrow> attempt_end dur k < 10000)"
proof (induction fn dur attempt now rule: retrying.induct)
  case (1 fn dur attempt now)
  have fn: "fn now = Inl (RuntimeError msg)"
    using "1.prems"(1) by simp
  have fin: "now + dur attempt = attempt_end dur attempt"
    using "1.prems"(4) by (simp add: attempt_end_def)
  show ?case
  proof (cases "stop_after_delay 10 (now + dur attempt)")
    case True
    then have "retrying fn dur attempt now =
        (Inl (RuntimeError msg),
         \<lparr>attempt_number = attempt, seconds_since_start = attempt_end dur attempt\<rparr>)"
      by (subst retrying.simps) (simp add: fn fin)
    moreover from True have "10000 \<le> attempt_end dur attempt"
      by (simp add: stop_after_delay_def fin)
    ultimately show ?thesis
      using "1.prems"(2,3,6) by blast
  next
    case False
    then have lt: "now + dur attempt < 10000"
      by (simp add: stop_after_delay_def)
    have small: "attempt \<le> 4"
    proof (rule ccontr)
      assume "\<not> attempt \<le> 4"
      with "1.prems"(3) have "attempt = 5" by simp
      with "1.prems"(5) lt show False by simp
    qed
    have w: "wait_exponential attempt = 1000 * 2 ^ (attempt - 1)"
      using "1.prems"(3) by (rule wait_exponential_small)
    have step: "retrying fn dur attempt now =
        retrying fn dur (attempt + 1) (now + dur attempt + wait_exponential attempt)"
      using False by (subst retrying.simps) (simp add: fn)
    from "1.prems"(2) obtain k where k: "attempt = Suc k"
      by (cases attempt) auto
    have next_ok: "1000 * 2 ^ (attempt + 1 - 1) \<le> now + dur attempt + wait_exponential attempt + 1000"
    proof -
      from w k have "wait_exponential (Suc k) = 1000 * 2 ^ k" by simp
      with "1.prems"(5) show ?thesis by (simp add: k)
    qed
    have next_start: "now + dur attempt + wait_exponential attempt = attempt_start dur (attempt + 1)"
      using "1.prems"(2,4) by (simp only: attempt_start_next)
    have earlier: "\<forall>j. 1 \<le> j \<and> j < attempt + 1 \<longrightarrow> attempt_end dur j < 10000"
    proof (intro allI impI)
      fix j
      assume j: "1 \<le> j \<and> j < attempt + 1"
      show "attempt_end dur j < 10000"
      proof (cases "j = attempt")
        case True
        with lt fin show ?thesis by simp
      next
        case False
        with j have "1 \<le> j \<and> j < attempt" by simp
        with "1.prems"(6) show ?thesis by blast
      qed
    qed
    have "\<exists>n. retrying fn dur (attempt + 1) (now + dur attempt + wait_exponential attempt) =
         (Inl (RuntimeError msg),
          \<lparr>attempt_number = n, seconds_since_start = attempt_end dur n\<rparr>) \<and>
       1 \<le> n \<and> n \<le> 5 \<and> 10000 \<le> attempt_end dur n \<and>
       (\<forall>k. 1 \<le> k \<and> k < n \<longrightarrow> attempt_end dur k < 10000)"
      by (rule "1.IH" [OF refl refl fn])
         (use False "1.prems"(1) small next_ok next_start earlier in simp_all)
    with step show ?thesis by simp
  qed
qed

lemma check_for_row_by_value_not_found:
  "row_by_value idl tname column (Str match) = Inl RowNotFound \<Longrightarrow>
   check_for_row_by_value idl tname column match =
     Inl (RuntimeError (not_exist_message tname column match))"
  by (simp add: check_for_row_by_value_def)

lemma ex_not_found:
  "row_by_value ex_nb ''Logical_Router'' ''name'' (Str ''r9'') = Inl RowNotFound"
  by (simp add: row_by_value_def getitem_def values_of_def getattr_def ex_nb_def)

lemma wait_exponential_values:
  "wait_exponential (Suc 0) = 1000"
  "wait_exponential (Suc (Suc 0)) = 2000"
  "wait_exponential (Suc (Suc (Suc 0))) = 4000"
  "wait_exponential (Suc (Suc (Suc (Suc 0)))) = 8000"
  by (simp_all add: wait_exponential_def MAX_WAIT_def)

lemma ex_attempt_start: "attempt_start ex_dur 5 = 15000"
proof -
  have five: "(5::nat) = Suc (Suc (Suc (Suc (Suc 0))))"
    by simp
  show ?thesis
    unfolding five by (simp add: wait_exponential_values ex_dur_def)
qed

lemma ex_attempt_end_slow: "attempt_end ex_dur_slow 2 = 13000"
proof -
  have two: "(2::nat) = Suc (Suc 0)"
    by simp
  show ?thesis
    unfolding two by (simp add: attempt_end_def wait_exponential_values ex_dur_slow_def)
qed

text \<open>
  C3, as the code has it. When the mirror never shows a matching row, so that every
  lookup raises \<^verbatim>\<open>RowNotFound\<close>, the check with retries ends, whatever time the
  attempts take, and raises the \<^verbatim>\<open>RuntimeError\<close> of its last attempt. The waits
  between the attempts are 1, 2, 4 and 8 seconds. The budget of 10 seconds is tested at
  the end of each failed attempt: the last attempt is the first one that ends 10 seconds
  or more after the start, every attempt before it ended within the budget and was
  retried, and there are at most five attempts.
\<close>

theorem check_for_row_exhausts_budget:
  assumes "\<forall>t. row_by_value (idl t) tname column (Str match) = Inl RowNotFound"
  shows "\<exists>n. check_for_row_by_value_and_retry idl dur tname column match =
           (Inl (RuntimeError (not_exist_message tname column match)),
            \<lparr>attempt_number = n, seconds_since_start = attempt_end dur n\<rparr>) \<and>
         1 \<le> n \<and> n \<le> 5 \<and> 10000 \<le> attempt_end dur n \<and>
         (\<forall>k. 1 \<le> k \<and> k < n \<longrightarrow>
            attempt_end dur k < 10000 \<and> wait_exponential k = 1000 * 2 ^ (k - 1))"
proof -
  have fails: "\<forall>t. check_for_row_by_value (idl t) tname column match =
          Inl (RuntimeError (not_exist_message tname column match))"
    using assms by (simp add: check_for_row_by_value_not_found)
  have "\<exists>n. retrying (\<lambda>t. check_for_row_by_value (idl t) tname column match) dur 1 0 =
         (Inl (RuntimeError (not_exist_message tname column match)),
          \<lparr>attempt_number = n, seconds_since_start = attempt_end dur n\<rparr>) \<and>
       1 \<le> n \<and> n \<le> 5 \<and> 10000 \<le> attempt_end dur n \<and>
       (\<forall>k. 1 \<le> k \<and> k < n \<longrightarrow> attempt_end dur k < 10000)"
    using fails by (rule retrying_schedule) simp_all
  then obtain n where run: "retrying (\<lambda>t. check_for_row_by_value (idl t) tname column match) dur 1 0 =
         (Inl (RuntimeError (not_exist_message tname column match)),
          \<lparr>attempt_number = n, seconds_since_start = attempt_end dur n\<rparr>)"
    and n: "1 \<le> n" "n \<le> 5" "10000 \<le> attempt_end dur n"
    and earlier: "\<forall>k. 1 \<le> k \<and> k < n \<longrightarrow> attempt_end dur k < 10000"
    by blast
  have "wait_exponential k = 1000 * 2 ^ (k - 1)" if "k < n" for k
    using that n(2) by (intro wait_exponential_small) simp
  with run n earlier show ?thesis
    unfolding check_for_row_by_value_and_retry_def by blast
qed

theorem check_for_row_exhausts_budget_witness:
  "row_by_value ex_nb ''Logical_Router'' ''name'' (Str ''r9'') = Inl RowNotFound \<and>
   check_for_row_by_value_and_retry ex_idl ex_dur_slow ''Logical_Router'' ''name'' ''r9'' =
     (Inl (RuntimeError ''r9 does not exist in name of Logical_Router''),
      \<lparr>attempt_number = 2, seconds_since_start = 13000\<rparr>)"
proof -
  have "\<forall>t. row_by_value (ex_idl t) ''Logical_Router'' ''name'' (Str ''r9'') = Inl RowNotFound"
    by (simp add: ex_idl_def ex_not_found)
  from check_for_row_exhausts_budget [of ex_idl "''Logical_Router''" "''name''" "''r9''" ex_dur_slow, OF this]
  obtain n where res:
    "check_for_row_by_value_and_retry ex_idl ex_dur_slow ''Logical_Router'' ''name'' ''r9'' =
       (Inl (RuntimeError (not_exist_message ''Logical_Router'' ''name'' ''r9'')),
        \<lparr>attempt_number = n, seconds_since_start = attempt_end ex_dur_slow n\<rparr>)"
    by blast
  have val: "check_for_row_by_value_and_retry ex_idl ex_dur_slow ''Logical_Router'' ''name'' ''r9'' =
       (Inl (RuntimeError (not_exist_message ''Logical_Router'' ''name'' ''r9'')),
        \<lparr>attempt_number = 2, seconds_since_start = 13000\<rparr>)"
    by (simp add: check_for_row_by_value_and_retry_def ex_idl_def ex_dur_slow_def
        check_for_row_by_value_not_found [OF ex_not_found]
        retrying.simps stop_after_delay_def wait_exponential_def MAX_WAIT_def)
  from res val have n: "n = 2"
    by simp
  from res have "check_for_row_by_value_and_retry ex_idl ex_dur_slow ''Logical_Router'' ''name'' ''r9'' =
       (Inl (RuntimeError (not_exist_message ''Logical_Router'' ''name'' ''r9'')),
        \<lparr>attempt_number = 2, seconds_since_start = attempt_end ex_dur_slow 2\<rparr>)"
    unfolding n .
  with ex_not_found show ?thesis
    by (simp add: not_exist_message_def ex_attempt_end_slow)
qed

text \<open>
  C3, as the claim states it, fails: the retries are not bounded by 10 seconds of
  wall-clock time. With lookups that take no time the attempts start at 0, 1, 3, 7 and
  15 seconds: the fourth attempt fails within the budget, the wait of 8 seconds follows,
  and the fifth attempt starts, and the error is raised, 15 seconds after the start.
\<close>

theorem check_for_row_outlasts_budget:
  "row_by_value ex_nb ''Logical_Router'' ''name'' (Str ''r9'') = Inl RowNotFound \<and>
   check_for_row_by_value_and_retry ex_idl ex_dur ''Logical_Router'' ''name'' ''r9'' =
     (Inl (RuntimeError ''r9 does not exist in name of Logical_Router''),
      \<lparr>attempt_number = 5, seconds_since_start = 15000\<rparr>) \<and>
   attempt_start ex_dur 5 = 15000 \<and>
   \<not> (15000::nat) \<le> 10000"
proof -
  have val: "check_for_row_by_value_and_retry ex_idl ex_dur ''Logical_Router'' ''name'' ''r9'' =
       (Inl (RuntimeError ''r9 does not exist in name of Logical_Router''),
        \<lparr>attempt_number = 5, seconds_since_start = 15000\<rparr>)"
    by (simp add: check_for_row_by_value_and_retry_def ex_idl_def ex_dur_def
        check_for_row_by_value_not_found [OF ex_not_found] not_exist_message_def
        retrying.simps stop_after_delay_def wait_exponential_def MAX_WAIT_def)
  from ex_not_found val ex_attempt_start show ?thesis
    by simp
qed

subsection \<open>Stopping the connection\<close>

text \<open>
  C8, as the code has it. \<open>stop\<close> raises no error in any state, and a second call
  leaves the state as the first one left it. The connection is stopped and forgotten by
  the call that finds one, so at most once for each connection started; every call,
  also one made before \<open>start\<close>, shuts the notification handler down and closes the
  session of the IDL.
\<close>

theorem stop_spec:
  "\<exists>s1. stop self = Inr s1 \<and> stop s1 = Inr s1 \<and>
        conn s1 = None \<and> \<not> notify_handler_running s1 \<and> \<not> session_open s1 \<and>
        conn_stops s1 = conn_stops self + (if conn self = None then 0 else 1) \<and>
        (conn self = None \<longrightarrow>
           s1 = self\<lparr>notify_handler_running := False, session_open := False\<rparr>)"
  by (cases "conn self")
     (simp_all add: stop_def notify_handler_shutdown_def close_def Let_def)

theorem stop_spec_witness:
  "stop (start \<lparr>stops_cleanly = False\<rparr> OvnSbIdlForLb_init) =
     Inr \<lparr>conn = None, notify_handler_running = False, session_open = False, conn_stops = 1,
          sb_LOG = [(DEBUG, ''Connection terminated to OvnSb but a thread is still alive'')]\<rparr> \<and>
   stop \<lparr>conn = None, notify_handler_running = False, session_open = False, conn_stops = 1,
          sb_LOG = [(DEBUG, ''Connection terminated to OvnSb but a thread is still alive'')]\<rparr> =
     Inr \<lparr>conn = None, notify_handler_running = False, session_open = False, conn_stops = 1,
          sb_LOG = [(DEBUG, ''Connection terminated to OvnSb but a thread is still alive'')]\<rparr> \<and>
   stop OvnSbIdlForLb_init =
     Inr (OvnSbIdlForLb_init\<lparr>notify_handler_running := False, session_open := False\<rparr>)"
proof -
  let ?s = "start \<lparr>stops_cleanly = False\<rparr> OvnSbIdlForLb_init"
  let ?r = "\<lparr>conn = None, notify_handler_running = False, session_open = False, conn_stops = 1,
          sb_LOG = [(DEBUG, ''Connection terminated to OvnSb but a thread is still alive'')]\<rparr>"
  from stop_spec [of ?s] obtain s1 where s1: "stop ?s = Inr s1" and again: "stop s1 = Inr s1"
    by blast
  have "stop ?s = Inr ?r"
    by (simp add: stop_def start_def notify_handler_shutdown_def close_def OvnSbIdlForLb_init_def)
  with s1 have eq: "s1 = ?r" by simp
  from stop_spec [of OvnSbIdlForLb_init] have
    "stop OvnSbIdlForLb_init =
       Inr (OvnSbIdlForLb_init\<lparr>notify_handler_running := False, session_open := False\<rparr>)"
    by (auto simp: OvnSbIdlForLb_init_def)
  with s1 again eq show ?thesis by simp
qed

text \<open>
  C8, as the claim states it, fails: \<open>stop\<close> before \<open>start\<close> is not a no-op. On the
  object as the constructor leaves it, it shuts the notification handler down and closes
  the session.
\<close>

theorem stop_before_start_not_noop:
  "stop OvnSbIdlForLb_init =
     Inr (OvnSbIdlForLb_init\<lparr>notify_handler_running := False, session_open := False\<rparr>) \<and>
   stop OvnSbIdlForLb_init \<noteq> Inr OvnSbIdlForLb_init"
  by (simp add: stop_def notify_handler_shutdown_def close_def OvnSbIdlForLb_init_def)

end
